theory Spec2Isabelle
  imports Main
begin

section \<open>Go values used by the fake backend\<close>

text \<open>
  The fake backend of \<^verbatim>\<open>netactuate/testing_fake.go\<close> keeps its records in Go maps keyed by
  \<^verbatim>\<open>int\<close>. Go's \<^verbatim>\<open>int\<close> is a signed machine integer (64 bits on the platforms the
  provider is built for); the only arithmetic that can leave its range is the increment of
  an id counter, which wraps around. Ids are modelled as \<open>int\<close> and the increment goes
  through \<open>wrap64\<close>.
\<close>

definition wrap64 :: "int \<Rightarrow> int" where
  "wrap64 x = (x + 2 ^ 63) mod 2 ^ 64 - 2 ^ 63"

text \<open>Go's \<^verbatim>\<open>%\<close> truncates towards zero: the remainder has the sign of the dividend.\<close>

definition go_rem :: "int \<Rightarrow> int \<Rightarrow> int" where
  "go_rem a b = sgn a * (abs a mod abs b)"

subsection \<open>Formatting verbs of \<^verbatim>\<open>fmt.Sprintf\<close>\<close>

definition digit_char :: "nat \<Rightarrow> char" where
  "digit_char d = ''0123456789abcdef'' ! d"

function dec_digits :: "nat \<Rightarrow> string" where
  "dec_digits n = (if n < 10 then [digit_char n] else dec_digits (n div 10) @ [digit_char (n mod 10)])"
  by pat_completeness auto
termination
  by (relation "measure id") auto

function hex_digits :: "nat \<Rightarrow> string" where
  "hex_digits n = (if n < 16 then [digit_char n] else hex_digits (n div 16) @ [digit_char (n mod 16)])"
  by pat_completeness auto
termination
  by (relation "measure id") auto

declare dec_digits.simps [simp del]
declare hex_digits.simps [simp del]

text \<open>\<^verbatim>\<open>%d\<close> and \<^verbatim>\<open>%x\<close> on an \<^verbatim>\<open>int\<close>: a minus sign, then the magnitude.\<close>

definition sprintf_d :: "int \<Rightarrow> string" where
  "sprintf_d n = (if n < 0 then ''-'' @ dec_digits (nat (- n)) else dec_digits (nat n))"

definition sprintf_x :: "int \<Rightarrow> string" where
  "sprintf_x n = (if n < 0 then ''-'' @ hex_digits (nat (- n)) else hex_digits (nat n))"

text \<open>\<^verbatim>\<open>%v\<close> on a \<^verbatim>\<open>bool\<close>.\<close>

definition sprintf_v :: "bool \<Rightarrow> string" where
  "sprintf_v b = (if b then ''true'' else ''false'')"

subsection \<open>Errors\<close>

text \<open>
  A Go \<^verbatim>\<open>error\<close> is represented by its message: \<^verbatim>\<open>fmt.Errorf\<close> and \<^verbatim>\<open>errors.New\<close>
  build one from a string. An absent error (\<^verbatim>\<open>nil\<close>) is \<open>None\<close>.
\<close>

datatype error = Error string

subsection \<open>Records of the \<^verbatim>\<open>gona\<close> client library\<close>

text \<open>
  The structs are declared in the external library \<^verbatim>\<open>github.com/netactuate/gona\<close>; the
  records carry the fields this repository reads or writes. A field
  \<^verbatim>\<open>F\<close> of struct \<^verbatim>\<open>S\<close> is named \<open>S_F\<close>.
\<close>

record Server =
  Server_ID :: int
  Server_Name :: string
  Server_OS :: string
  Server_OSID :: int
  Server_PrimaryIPv4 :: string
  Server_PrimaryIPv6 :: string
  Server_PlanID :: int
  Server_Package :: string
  Server_PackageBilling :: string
  Server_PackageBillingContractId :: string
  Server_Location :: string
  Server_LocationID :: int
  Server_ServerStatus :: string
  Server_PowerStatus :: string
  Server_Installed :: int
  Server_CloudPool :: string

record SSHKey =
  SSHKey_ID :: int
  SSHKey_Name :: string
  SSHKey_Key :: string
  SSHKey_Fingerprint :: string

record BGPSession =
  BGPSession_ID :: int
  BGPSession_CustomerIP :: string
  BGPSession_GroupID :: int
  BGPSession_Locked :: int
  BGPSession_Description :: string
  BGPSession_State :: string
  BGPSession_RoutesReceived :: int
  BGPSession_ConfigStatus :: int
  BGPSession_ProviderPeerIP :: string
  BGPSession_Location :: string
  BGPSession_GroupName :: string
  BGPSession_ProviderIPType :: string
  BGPSession_ProviderAsn :: int
  BGPSession_CustomerAsn :: int

record IP =
  IP_ID :: int
  IP_IP :: string
  IP_Primary :: int
  IP_Gateway :: string
  IP_Netmask :: string
  IP_Broadcast :: string
  IP_Reverse :: string

record IPs =
  IPs_IPv4 :: "IP list"
  IPs_IPv6 :: "IP list"

record Location =
  Location_ID :: int
  Location_Name :: string
  Location_IATACode :: string
  Location_Continent :: string
  Location_Flag :: string
  Location_Disabled :: int

record OS =
  OS_ID :: int
  OS_Os :: string
  OS_Type :: string
  OS_Subtype :: string
  OS_Size :: string
  OS_Bits :: string
  OS_Tech :: string

record ServerBuild =
  ServerBuild_ServerID :: int
  ServerBuild_Status :: string
  ServerBuild_Build :: int

record CreateServerRequest =
  CreateServerRequest_Plan :: string
  CreateServerRequest_Location :: int
  CreateServerRequest_Image :: int
  CreateServerRequest_FQDN :: string
  CreateServerRequest_PackageBilling :: string
  CreateServerRequest_PackageBillingContractId :: string

record BuildServerRequest =
  BuildServerRequest_Location :: int
  BuildServerRequest_Image :: int
  BuildServerRequest_FQDN :: string
  BuildServerRequest_PackageBilling :: string
  BuildServerRequest_PackageBillingContractId :: string

section \<open>The fake backend\<close>

text \<open>
  \<^verbatim>\<open>FakeClient\<close>: the four maps, the two reference lists, the three id counters, one
  injectable error per operation and the call log. The mutex is left out: every method
  holds it for its whole body, so the methods run one after the other. The session lists
  hold pointers in the source; here they hold the sessions themselves.
\<close>

record FakeClient =
  servers :: "int \<rightharpoonup> Server"
  sshKeys :: "int \<rightharpoonup> SSHKey"
  bgpSessions :: "int \<rightharpoonup> BGPSession list"
  ips :: "int \<rightharpoonup> IPs"
  locations :: "Location list"
  oses :: "OS list"
  nextServerID :: int
  nextSSHKeyID :: int
  nextBGPSessionID :: int
  CreateServerError :: "error option"
  GetServerError :: "error option"
  BuildServerError :: "error option"
  DeleteServerError :: "error option"
  UnlinkServerError :: "error option"
  CreateSSHKeyError :: "error option"
  GetSSHKeyError :: "error option"
  DeleteSSHKeyError :: "error option"
  CreateBGPSessionsError :: "error option"
  GetBGPSessionsError :: "error option"
  GetIPsError :: "error option"
  GetLocationsError :: "error option"
  GetOSsError :: "error option"
  calls :: "string list"

text \<open>Zero values of the library structs (\<^verbatim>\<open>gona.Server{}\<close> and so on).\<close>

definition zero_Server :: Server where
  "zero_Server = \<lparr>Server_ID = 0, Server_Name = [], Server_OS = [], Server_OSID = 0,
     Server_PrimaryIPv4 = [], Server_PrimaryIPv6 = [], Server_PlanID = 0, Server_Package = [],
     Server_PackageBilling = [], Server_PackageBillingContractId = [], Server_Location = [],
     Server_LocationID = 0, Server_ServerStatus = [], Server_PowerStatus = [],
     Server_Installed = 0, Server_CloudPool = []\<rparr>"

definition zero_BGPSession :: BGPSession where
  "zero_BGPSession = \<lparr>BGPSession_ID = 0, BGPSession_CustomerIP = [], BGPSession_GroupID = 0,
     BGPSession_Locked = 0, BGPSession_Description = [], BGPSession_State = [],
     BGPSession_RoutesReceived = 0, BGPSession_ConfigStatus = 0, BGPSession_ProviderPeerIP = [],
     BGPSession_Location = [], BGPSession_GroupName = [], BGPSession_ProviderIPType = [],
     BGPSession_ProviderAsn = 0, BGPSession_CustomerAsn = 0\<rparr>"

definition zero_IP :: IP where
  "zero_IP = \<lparr>IP_ID = 0, IP_IP = [], IP_Primary = 0, IP_Gateway = [], IP_Netmask = [],
     IP_Broadcast = [], IP_Reverse = []\<rparr>"

definition zero_IPs :: IPs where
  "zero_IPs = \<lparr>IPs_IPv4 = [], IPs_IPv6 = []\<rparr>"

definition zero_Location :: Location where
  "zero_Location = \<lparr>Location_ID = 0, Location_Name = [], Location_IATACode = [],
     Location_Continent = [], Location_Flag = [], Location_Disabled = 0\<rparr>"

definition zero_OS :: OS where
  "zero_OS = \<lparr>OS_ID = 0, OS_Os = [], OS_Type = [], OS_Subtype = [], OS_Size = [],
     OS_Bits = [], OS_Tech = []\<rparr>"

definition NewFakeClient :: FakeClient where
  "NewFakeClient = \<lparr>
     servers = Map.empty,
     sshKeys = Map.empty,
     bgpSessions = Map.empty,
     ips = Map.empty,
     locations = [
       zero_Location\<lparr>Location_ID := 1, Location_Name := ''AMS Amsterdam'',
         Location_IATACode := ''AMS'', Location_Continent := ''EU''\<rparr>,
       zero_Location\<lparr>Location_ID := 2, Location_Name := ''LAX Los Angeles'',
         Location_IATACode := ''LAX'', Location_Continent := ''NA''\<rparr>,
       zero_Location\<lparr>Location_ID := 3, Location_Name := ''SJC San Jose'',
         Location_IATACode := ''SJC'', Location_Continent := ''NA''\<rparr>],
     oses = [
       zero_OS\<lparr>OS_ID := 1, OS_Os := ''Ubuntu 22.04 LTS'', OS_Type := ''linux'', OS_Bits := ''64''\<rparr>,
       zero_OS\<lparr>OS_ID := 2, OS_Os := ''Debian 12'', OS_Type := ''linux'', OS_Bits := ''64''\<rparr>,
       zero_OS\<lparr>OS_ID := 3, OS_Os := ''Rocky Linux 9'', OS_Type := ''linux'', OS_Bits := ''64''\<rparr>],
     nextServerID = 1000,
     nextSSHKeyID = 100,
     nextBGPSessionID = 500,
     CreateServerError = None,
     GetServerError = None,
     BuildServerError = None,
     DeleteServerError = None,
     UnlinkServerError = None,
     CreateSSHKeyError = None,
     GetSSHKeyError = None,
     DeleteSSHKeyError = None,
     CreateBGPSessionsError = None,
     GetBGPSessionsError = None,
     GetIPsError = None,
     GetLocationsError = None,
     GetOSsError = None,
     calls = []\<rparr>"

text \<open>\<^verbatim>\<open>trackCall\<close> appends to the call log.\<close>

definition trackCall :: "FakeClient \<Rightarrow> string \<Rightarrow> FakeClient" where
  "trackCall f call = f\<lparr>calls := calls f @ [call]\<rparr>"

text \<open>
  The two name lookups shared by \<^verbatim>\<open>CreateServer\<close> and \<^verbatim>\<open>BuildServer\<close>: walk the
  reference list, copy the name of the first entry with the requested id, stop there.
\<close>

fun set_os_name :: "OS list \<Rightarrow> int \<Rightarrow> Server \<Rightarrow> Server" where
  "set_os_name [] img server = server"
| "set_os_name (os # rest) img server =
     (if OS_ID os = img then server\<lparr>Server_OS := OS_Os os\<rparr>
      else set_os_name rest img server)"

fun set_location_name :: "Location list \<Rightarrow> int \<Rightarrow> Server \<Rightarrow> Server" where
  "set_location_name [] location server = server"
| "set_location_name (loc # rest) location server =
     (if Location_ID loc = location then server\<lparr>Server_Location := Location_Name loc\<rparr>
      else set_location_name rest location server)"

subsection \<open>Server operations\<close>

text \<open>
  Every method returns its result together with the backend after the call. A method
  returning \<^verbatim>\<open>(T, error)\<close> returns \<open>Inl e\<close> for a non-nil error (the source pairs it with
  the zero value of \<^verbatim>\<open>T\<close>) and \<open>Inr v\<close> otherwise; a method returning only \<^verbatim>\<open>error\<close>
  returns an \<open>error option\<close>.
\<close>

definition CreateServer ::
  "FakeClient \<Rightarrow> CreateServerRequest \<Rightarrow> (error + ServerBuild) \<times> FakeClient" where
  "CreateServer f0 r =
     (let f = trackCall f0 ''CreateServer'' in
      case CreateServerError f of
        Some e \<Rightarrow> (Inl e, f)
      | None \<Rightarrow>
          (let serverID = nextServerID f;
               f = f\<lparr>nextServerID := wrap64 (serverID + 1)\<rparr>;
               server = zero_Server\<lparr>
                 Server_ID := serverID,
                 Server_Name := CreateServerRequest_FQDN r,
                 Server_OSID := CreateServerRequest_Image r,
                 Server_LocationID := CreateServerRequest_Location r,
                 Server_PlanID := 1,
                 Server_Package := CreateServerRequest_Plan r,
                 Server_PackageBilling := CreateServerRequest_PackageBilling r,
                 Server_PackageBillingContractId := CreateServerRequest_PackageBillingContractId r,
                 Server_ServerStatus := ''RUNNING'',
                 Server_PowerStatus := ''on'',
                 Server_Installed := 1,
                 Server_PrimaryIPv4 := ''192.0.2.'' @ sprintf_d (go_rem serverID 256),
                 Server_PrimaryIPv6 := ''2001:db8::'' @ sprintf_x serverID\<rparr>;
               server = set_os_name (oses f) (CreateServerRequest_Image r) server;
               server = set_location_name (locations f) (CreateServerRequest_Location r) server;
               f = f\<lparr>servers := (servers f)(serverID \<mapsto> server)\<rparr>
           in (Inr \<lparr>ServerBuild_ServerID = serverID, ServerBuild_Status = ''building'',
                     ServerBuild_Build = 1\<rparr>, f)))"

definition GetServer :: "FakeClient \<Rightarrow> int \<Rightarrow> (error + Server) \<times> FakeClient" where
  "GetServer f0 id' =
     (let f = trackCall f0 (''GetServer('' @ sprintf_d id' @ '')'') in
      case GetServerError f of
        Some e \<Rightarrow> (Inl e, f)
      | None \<Rightarrow>
          (case servers f id' of
             None \<Rightarrow> (Inl (Error (''server '' @ sprintf_d id' @ '' not found'')), f)
           | Some server \<Rightarrow> (Inr server, f)))"

definition BuildServer ::
  "FakeClient \<Rightarrow> int \<Rightarrow> BuildServerRequest \<Rightarrow> (error + ServerBuild) \<times> FakeClient" where
  "BuildServer f0 id' r =
     (let f = trackCall f0 (''BuildServer('' @ sprintf_d id' @ '')'') in
      case BuildServerError f of
        Some e \<Rightarrow> (Inl e, f)
      | None \<Rightarrow>
          (case servers f id' of
             None \<Rightarrow> (Inl (Error (''server '' @ sprintf_d id' @ '' not found'')), f)
           | Some server0 \<Rightarrow>
               (let server = server0\<lparr>
                      Server_Name := BuildServerRequest_FQDN r,
                      Server_OSID := BuildServerRequest_Image r,
                      Server_LocationID := BuildServerRequest_Location r,
                      Server_PackageBilling := BuildServerRequest_PackageBilling r,
                      Server_PackageBillingContractId := BuildServerRequest_PackageBillingContractId r,
                      Server_ServerStatus := ''RUNNING''\<rparr>;
                    server = set_os_name (oses f) (BuildServerRequest_Image r) server;
                    server = set_location_name (locations f) (BuildServerRequest_Location r) server;
                    f = f\<lparr>servers := (servers f)(id' \<mapsto> server)\<rparr>
                in (Inr \<lparr>ServerBuild_ServerID = id', ServerBuild_Status = ''building'',
                          ServerBuild_Build = 1\<rparr>, f))))"

definition DeleteServer :: "FakeClient \<Rightarrow> int \<Rightarrow> bool \<Rightarrow> error option \<times> FakeClient" where
  "DeleteServer f0 id' cancelBilling =
     (let f = trackCall f0 (''DeleteServer('' @ sprintf_d id' @ '', '' @ sprintf_v cancelBilling @ '')'') in
      case DeleteServerError f of
        Some e \<Rightarrow> (Some e, f)
      | None \<Rightarrow>
          (case servers f id' of
             None \<Rightarrow> (Some (Error (''server '' @ sprintf_d id' @ '' not found'')), f)
           | Some server \<Rightarrow>
               (None, f\<lparr>servers := (servers f)(id' \<mapsto> server\<lparr>Server_ServerStatus := ''TERMINATED''\<rparr>)\<rparr>)))"

definition UnlinkServer :: "FakeClient \<Rightarrow> int \<Rightarrow> error option \<times> FakeClient" where
  "UnlinkServer f0 id' =
     (let f = trackCall f0 (''UnlinkServer('' @ sprintf_d id' @ '')'') in
      case UnlinkServerError f of
        Some e \<Rightarrow> (Some e, f)
      | None \<Rightarrow> (None, f\<lparr>servers := (servers f)(id' := None)\<rparr>))"

subsection \<open>SSH key operations\<close>

definition CreateSSHKey ::
  "FakeClient \<Rightarrow> string \<Rightarrow> string \<Rightarrow> (error + SSHKey) \<times> FakeClient" where
  "CreateSSHKey f0 name key =
     (let f = trackCall f0 (''CreateSSHKey('' @ name @ '')'') in
      case CreateSSHKeyError f of
        Some e \<Rightarrow> (Inl e, f)
      | None \<Rightarrow>
          (let keyID = nextSSHKeyID f;
               f = f\<lparr>nextSSHKeyID := wrap64 (keyID + 1)\<rparr>;
               sshKey = \<lparr>SSHKey_ID = keyID, SSHKey_Name = name, SSHKey_Key = key,
                 SSHKey_Fingerprint = ''SHA256:fake-fingerprint-'' @ sprintf_d keyID\<rparr>;
               f = f\<lparr>sshKeys := (sshKeys f)(keyID \<mapsto> sshKey)\<rparr>
           in (Inr sshKey, f)))"

definition GetSSHKey :: "FakeClient \<Rightarrow> int \<Rightarrow> (error + SSHKey) \<times> FakeClient" where
  "GetSSHKey f0 id' =
     (let f = trackCall f0 (''GetSSHKey('' @ sprintf_d id' @ '')'') in
      case GetSSHKeyError f of
        Some e \<Rightarrow> (Inl e, f)
      | None \<Rightarrow>
          (case sshKeys f id' of
             None \<Rightarrow> (Inl (Error (''ssh key '' @ sprintf_d id' @ '' not found'')), f)
           | Some key \<Rightarrow> (Inr key, f)))"

definition DeleteSSHKey :: "FakeClient \<Rightarrow> int \<Rightarrow> error option \<times> FakeClient" where
  "DeleteSSHKey f0 id' =
     (let f = trackCall f0 (''DeleteSSHKey('' @ sprintf_d id' @ '')'') in
      case DeleteSSHKeyError f of
        Some e \<Rightarrow> (Some e, f)
      | None \<Rightarrow>
          (case sshKeys f id' of
             None \<Rightarrow> (Some (Error (''ssh key '' @ sprintf_d id' @ '' not found'')), f)
           | Some key \<Rightarrow> (None, f\<lparr>sshKeys := (sshKeys f)(id' := None)\<rparr>)))"

subsection \<open>BGP sessions, IP allocations and the reference lists\<close>

text \<open>
  A key that is missing from \<^verbatim>\<open>bgpSessions\<close> reads as the nil slice, which
  \<^verbatim>\<open>CreateBGPSessions\<close> replaces by an empty one before it appends.
\<close>

definition CreateBGPSessions ::
  "FakeClient \<Rightarrow> int \<Rightarrow> int \<Rightarrow> bool \<Rightarrow> bool \<Rightarrow> (error + BGPSession) \<times> FakeClient" where
  "CreateBGPSessions f0 mbPkgID groupID isIPV6 redundant =
     (let f = trackCall f0 (''CreateBGPSessions('' @ sprintf_d mbPkgID @ '', '' @ sprintf_d groupID
                @ '', '' @ sprintf_v isIPV6 @ '', '' @ sprintf_v redundant @ '')'') in
      case CreateBGPSessionsError f of
        Some e \<Rightarrow> (Inl e, f)
      | None \<Rightarrow>
          (let sessionID = nextBGPSessionID f;
               f = f\<lparr>nextBGPSessionID := wrap64 (sessionID + 1)\<rparr>;
               ipType = (if isIPV6 then ''IPv6'' else ''IPv4'');
               customerIP = (if isIPV6 then ''2001:db8:bgp::'' @ sprintf_x sessionID
                             else ''198.51.100.'' @ sprintf_d (go_rem sessionID 256));
               session = zero_BGPSession\<lparr>
                 BGPSession_ID := sessionID,
                 BGPSession_CustomerIP := customerIP,
                 BGPSession_GroupID := groupID,
                 BGPSession_ProviderIPType := ipType,
                 BGPSession_ProviderAsn := 64512,
                 BGPSession_CustomerAsn := 65000,
                 BGPSession_State := ''established'',
                 BGPSession_ConfigStatus := 1\<rparr>;
               sessions = (case bgpSessions f mbPkgID of None \<Rightarrow> [] | Some l \<Rightarrow> l);
               f = f\<lparr>bgpSessions := (bgpSessions f)(mbPkgID \<mapsto> sessions @ [session])\<rparr>
           in (Inr session, f)))"

definition GetBGPSessions :: "FakeClient \<Rightarrow> int \<Rightarrow> (error + BGPSession list) \<times> FakeClient" where
  "GetBGPSessions f0 mbPkgID =
     (let f = trackCall f0 (''GetBGPSessions('' @ sprintf_d mbPkgID @ '')'') in
      case GetBGPSessionsError f of
        Some e \<Rightarrow> (Inl e, f)
      | None \<Rightarrow>
          (case bgpSessions f mbPkgID of
             None \<Rightarrow> (Inr [], f)
           | Some sessions \<Rightarrow> (Inr sessions, f)))"

definition GetIPs :: "FakeClient \<Rightarrow> int \<Rightarrow> (error + IPs) \<times> FakeClient" where
  "GetIPs f0 mbPkgID =
     (let f = trackCall f0 (''GetIPs('' @ sprintf_d mbPkgID @ '')'') in
      case GetIPsError f of
        Some e \<Rightarrow> (Inl e, f)
      | None \<Rightarrow>
          (case ips f mbPkgID of
             None \<Rightarrow>
               (case servers f mbPkgID of
                  Some server \<Rightarrow>
                    (Inr \<lparr>IPs_IPv4 = [zero_IP\<lparr>IP_ID := 1,
                                        IP_IP := ''192.0.2.'' @ sprintf_d (go_rem mbPkgID 256),
                                        IP_Primary := 1, IP_Gateway := ''192.0.2.1'',
                                        IP_Netmask := ''255.255.255.0''\<rparr>],
                           IPs_IPv6 = [zero_IP\<lparr>IP_ID := 2,
                                        IP_IP := ''2001:db8::'' @ sprintf_x mbPkgID,
                                        IP_Primary := 1, IP_Gateway := ''2001:db8::1'',
                                        IP_Netmask := ''ffff:ffff:ffff:ffff::''\<rparr>]\<rparr>, f)
                | None \<Rightarrow> (Inr zero_IPs, f))
           | Some ips' \<Rightarrow> (Inr ips', f)))"

definition GetLocations :: "FakeClient \<Rightarrow> (error + Location list) \<times> FakeClient" where
  "GetLocations f0 =
     (let f = trackCall f0 ''GetLocations'' in
      case GetLocationsError f of
        Some e \<Rightarrow> (Inl e, f)
      | None \<Rightarrow> (Inr (locations f), f))"

definition GetOSs :: "FakeClient \<Rightarrow> (error + OS list) \<times> FakeClient" where
  "GetOSs f0 =
     (let f = trackCall f0 ''GetOSs'' in
      case GetOSsError f of
        Some e \<Rightarrow> (Inl e, f)
      | None \<Rightarrow> (Inr (oses f), f))"

subsection \<open>Helper methods for tests\<close>

text \<open>The helpers write the state directly; they neither log a call nor look at a counter.\<close>

definition AddServer :: "FakeClient \<Rightarrow> Server \<Rightarrow> FakeClient" where
  "AddServer f server = f\<lparr>servers := (servers f)(Server_ID server \<mapsto> server)\<rparr>"

definition AddSSHKey :: "FakeClient \<Rightarrow> SSHKey \<Rightarrow> FakeClient" where
  "AddSSHKey f key = f\<lparr>sshKeys := (sshKeys f)(SSHKey_ID key \<mapsto> key)\<rparr>"

definition AddBGPSession :: "FakeClient \<Rightarrow> int \<Rightarrow> BGPSession \<Rightarrow> FakeClient" where
  "AddBGPSession f mbPkgID session =
     (let sessions = (case bgpSessions f mbPkgID of None \<Rightarrow> [] | Some l \<Rightarrow> l)
      in f\<lparr>bgpSessions := (bgpSessions f)(mbPkgID \<mapsto> sessions @ [session])\<rparr>)"

definition SetIPs :: "FakeClient \<Rightarrow> int \<Rightarrow> IPs \<Rightarrow> FakeClient" where
  "SetIPs f mbPkgID ips' = f\<lparr>ips := (ips f)(mbPkgID \<mapsto> ips')\<rparr>"

definition AddLocation :: "FakeClient \<Rightarrow> Location \<Rightarrow> FakeClient" where
  "AddLocation f location = f\<lparr>locations := locations f @ [location]\<rparr>"

definition AddOS :: "FakeClient \<Rightarrow> OS \<Rightarrow> FakeClient" where
  "AddOS f os = f\<lparr>oses := oses f @ [os]\<rparr>"

definition GetCalls :: "FakeClient \<Rightarrow> string list" where
  "GetCalls f = calls f"

definition ResetCalls :: "FakeClient \<Rightarrow> FakeClient" where
  "ResetCalls f = f\<lparr>calls := []\<rparr>"

section \<open>Calls through \<^verbatim>\<open>ClientInterface\<close>\<close>

text \<open>
  The interface \<^verbatim>\<open>ClientInterface\<close> lists the thirteen methods a client offers. A call is one method with its arguments, a reply is what the method
  returned, and \<open>invoke\<close> dispatches a call to the method of the fake backend.
\<close>

datatype call =
    Call_CreateServer CreateServerRequest
  | Call_GetServer int
  | Call_BuildServer int BuildServerRequest
  | Call_DeleteServer int bool
  | Call_UnlinkServer int
  | Call_CreateSSHKey string string
  | Call_GetSSHKey int
  | Call_DeleteSSHKey int
  | Call_CreateBGPSessions int int bool bool
  | Call_GetBGPSessions int
  | Call_GetIPs int
  | Call_GetLocations
  | Call_GetOSs

datatype reply =
    Reply_ServerBuild "error + ServerBuild"
  | Reply_Server "error + Server"
  | Reply_error "error option"
  | Reply_SSHKey "error + SSHKey"
  | Reply_BGPSession "error + BGPSession"
  | Reply_BGPSessions "error + BGPSession list"
  | Reply_IPs "error + IPs"
  | Reply_Locations "error + Location list"
  | Reply_OSs "error + OS list"

fun invoke :: "FakeClient \<Rightarrow> call \<Rightarrow> reply \<times> FakeClient" where
  "invoke f (Call_CreateServer r) = map_prod Reply_ServerBuild (\<lambda>x. x) (CreateServer f r)"
| "invoke f (Call_GetServer i) = map_prod Reply_Server (\<lambda>x. x) (GetServer f i)"
| "invoke f (Call_BuildServer i r) = map_prod Reply_ServerBuild (\<lambda>x. x) (BuildServer f i r)"
| "invoke f (Call_DeleteServer i b) = map_prod Reply_error (\<lambda>x. x) (DeleteServer f i b)"
| "invoke f (Call_UnlinkServer i) = map_prod Reply_error (\<lambda>x. x) (UnlinkServer f i)"
| "invoke f (Call_CreateSSHKey n k) = map_prod Reply_SSHKey (\<lambda>x. x) (CreateSSHKey f n k)"
| "invoke f (Call_GetSSHKey i) = map_prod Reply_SSHKey (\<lambda>x. x) (GetSSHKey f i)"
| "invoke f (Call_DeleteSSHKey i) = map_prod Reply_error (\<lambda>x. x) (DeleteSSHKey f i)"
| "invoke f (Call_CreateBGPSessions i g v r) =
     map_prod Reply_BGPSession (\<lambda>x. x) (CreateBGPSessions f i g v r)"
| "invoke f (Call_GetBGPSessions i) = map_prod Reply_BGPSessions (\<lambda>x. x) (GetBGPSessions f i)"
| "invoke f (Call_GetIPs i) = map_prod Reply_IPs (\<lambda>x. x) (GetIPs f i)"
| "invoke f Call_GetLocations = map_prod Reply_Locations (\<lambda>x. x) (GetLocations f)"
| "invoke f Call_GetOSs = map_prod Reply_OSs (\<lambda>x. x) (GetOSs f)"

text \<open>
  The ids handed out by the successful \<^verbatim>\<open>CreateServer\<close> calls of a run, in the order of
  the calls; every other call of the run only moves the backend on.
\<close>

fun issued_id :: "call \<Rightarrow> reply \<Rightarrow> int list" where
  "issued_id (Call_CreateServer r) (Reply_ServerBuild (Inr b)) = [ServerBuild_ServerID b]"
| "issued_id c r = []"

fun created_ids :: "FakeClient \<Rightarrow> call list \<Rightarrow> int list" where
  "created_ids f [] = []"
| "created_ids f (c # cs) = issued_id c (fst (invoke f c)) @ created_ids (snd (invoke f c)) cs"

fun run :: "FakeClient \<Rightarrow> call list \<Rightarrow> FakeClient" where
  "run f [] = f"
| "run f (c # cs) = run (snd (invoke f c)) cs"

fun is_CreateServer :: "call \<Rightarrow> bool" where
  "is_CreateServer (Call_CreateServer r) = True"
| "is_CreateServer c = False"

text \<open>The part of the backend that holds entities: everything but the error fields and the call log.\<close>

definition entity_state ::
  "FakeClient \<Rightarrow> (int \<rightharpoonup> Server) \<times> (int \<rightharpoonup> SSHKey) \<times> (int \<rightharpoonup> BGPSession list) \<times> (int \<rightharpoonup> IPs)
     \<times> Location list \<times> OS list \<times> int \<times> int \<times> int" where
  "entity_state f = (servers f, sshKeys f, bgpSessions f, ips f, locations f, oses f,
     nextServerID f, nextSSHKeyID f, nextBGPSessionID f)"

text \<open>
  The error field a method consults before it does anything else, and the error a reply
  carries.
\<close>

fun injected_error :: "FakeClient \<Rightarrow> call \<Rightarrow> error option" where
  "injected_error f (Call_CreateServer r) = CreateServerError f"
| "injected_error f (Call_GetServer i) = GetServerError f"
| "injected_error f (Call_BuildServer i r) = BuildServerError f"
| "injected_error f (Call_DeleteServer i b) = DeleteServerError f"
| "injected_error f (Call_UnlinkServer i) = UnlinkServerError f"
| "injected_error f (Call_CreateSSHKey n k) = CreateSSHKeyError f"
| "injected_error f (Call_GetSSHKey i) = GetSSHKeyError f"
| "injected_error f (Call_DeleteSSHKey i) = DeleteSSHKeyError f"
| "injected_error f (Call_CreateBGPSessions i g v r) = CreateBGPSessionsError f"
| "injected_error f (Call_GetBGPSessions i) = GetBGPSessionsError f"
| "injected_error f (Call_GetIPs i) = GetIPsError f"
| "injected_error f Call_GetLocations = GetLocationsError f"
| "injected_error f Call_GetOSs = GetOSsError f"

definition sum_error :: "error + 'a \<Rightarrow> error option" where
  "sum_error x = (case x of Inl e \<Rightarrow> Some e | Inr v \<Rightarrow> None)"

fun reply_error :: "reply \<Rightarrow> error option" where
  "reply_error (Reply_ServerBuild x) = sum_error x"
| "reply_error (Reply_Server x) = sum_error x"
| "reply_error (Reply_error x) = x"
| "reply_error (Reply_SSHKey x) = sum_error x"
| "reply_error (Reply_BGPSession x) = sum_error x"
| "reply_error (Reply_BGPSessions x) = sum_error x"
| "reply_error (Reply_IPs x) = sum_error x"
| "reply_error (Reply_Locations x) = sum_error x"
| "reply_error (Reply_OSs x) = sum_error x"

text \<open>The status of the server stored under an id, if there is one.\<close>

definition status_of :: "FakeClient \<Rightarrow> int \<Rightarrow> string option" where
  "status_of f i = map_option Server_ServerStatus (servers f i)"

text \<open>The requests of the repository's own test of the fake backend (\<^verbatim>\<open>TestFakeClient\<close>).\<close>

definition test_request :: CreateServerRequest where
  "test_request = \<lparr>CreateServerRequest_Plan = ''test-plan'', CreateServerRequest_Location = 1,
     CreateServerRequest_Image = 1, CreateServerRequest_FQDN = ''test.example.com'',
     CreateServerRequest_PackageBilling = ''usage'',
     CreateServerRequest_PackageBillingContractId = ''contract-123''\<rparr>"

definition rebuild_request :: BuildServerRequest where
  "rebuild_request = \<lparr>BuildServerRequest_Location = 2, BuildServerRequest_Image = 2,
     BuildServerRequest_FQDN = ''rebuilt.example.com'', BuildServerRequest_PackageBilling = ''usage'',
     BuildServerRequest_PackageBillingContractId = []\<rparr>"

section \<open>Provider configuration\<close>

text \<open>
  The client of the \<^verbatim>\<open>gona\<close> library is built by one of two constructors; the library
  is external, so a client is represented by the constructor call that made it.
\<close>

datatype Client = NewClient string | NewClientCustom string string

datatype Severity = Severity_Error | Severity_Warning

record Diagnostic =
  Diagnostic_Severity :: Severity
  Diagnostic_Summary :: string
  Diagnostic_Detail :: string

definition HasError :: "Diagnostic list \<Rightarrow> bool" where
  "HasError diags = list_ex (\<lambda>d. Diagnostic_Severity d = Severity_Error) diags"

definition Errors :: "Diagnostic list \<Rightarrow> Diagnostic list" where
  "Errors diags = filter (\<lambda>d. Diagnostic_Severity d = Severity_Error) diags"

subsection \<open>The legacy (SDK) provider\<close>

text \<open>
  Modelled from the spec: the read \<^verbatim>\<open>d.Get(key)\<close> of the Terraform SDK's
  \<^verbatim>\<open>schema.ResourceData\<close> under the schema of \<^verbatim>\<open>NewSDKProvider\<close>, which is library code
  outside this repository. The schema gives \<^verbatim>\<open>api_key\<close> the default
  \<^verbatim>\<open>EnvDefaultFunc("NETACTUATE_API_KEY", nil)\<close> and \<^verbatim>\<open>api_url\<close> none. Following the spec,
  the environment variable is consulted only when the configuration field is empty, and a
  field that nothing supplies reads as the empty string.
\<close>

definition EnvDefaultFunc :: "string \<Rightarrow> (string \<rightharpoonup> string) \<Rightarrow> string" where
  "EnvDefaultFunc k env = (case env k of None \<Rightarrow> [] | Some v \<Rightarrow> v)"

definition ResourceData_Get ::
  "(string \<rightharpoonup> string) \<Rightarrow> (string \<rightharpoonup> string) \<Rightarrow> string \<Rightarrow> string" where
  "ResourceData_Get raw env key =
     (let configured = (case raw key of None \<Rightarrow> [] | Some v \<Rightarrow> v)
      in if configured \<noteq> [] then configured
         else if key = ''api_key'' then EnvDefaultFunc ''NETACTUATE_API_KEY'' env
         else [])"

text \<open>\<^verbatim>\<open>providerConfigure\<close>, with \<open>d\<close> the read function of the resource data.\<close>

definition providerConfigure :: "(string \<Rightarrow> string) \<Rightarrow> Client option \<times> Diagnostic list" where
  "providerConfigure d =
     (let diags = [];
          apiKey = d ''api_key'';
          apiUrl = d ''api_url''
      in if apiKey = [] then
           (None, diags @ [\<lparr>Diagnostic_Severity = Severity_Error,
              Diagnostic_Summary = ''Unable to create NetActuate API client'',
              Diagnostic_Detail = ''Unable to find NetActuate API key. It can be set with either NETACTUATE_API_KEY environment''
                @ [CHR 0x0A] @ ''variable or 'api_key' property''\<rparr>])
         else if apiUrl = [] then (Some (NewClient apiKey), [])
         else (Some (NewClientCustom apiKey apiUrl), []))"

subsection \<open>The framework provider\<close>

text \<open>
  A \<^verbatim>\<open>types.String\<close> of the plugin framework is null, unknown or a known string;
  \<^verbatim>\<open>ValueString\<close> reads the first two as the empty string.
\<close>

datatype types_String = StringNull | StringUnknown | StringValue string

fun ValueString :: "types_String \<Rightarrow> string" where
  "ValueString (StringValue v) = v"
| "ValueString StringNull = []"
| "ValueString StringUnknown = []"

record FrameworkProviderModel =
  ApiKey :: types_String
  ApiUrl :: types_String

record ConfigureResponse =
  Diagnostics :: "Diagnostic list"
  DataSourceData :: "Client option"
  ResourceData :: "Client option"

text \<open>
  \<^verbatim>\<open>Diagnostics.Append\<close> of the framework adds the diagnostics it is given in order and
  skips one that is already there; \<^verbatim>\<open>AddError\<close> appends one error diagnostic the same
  way.
\<close>

fun Append :: "Diagnostic list \<Rightarrow> Diagnostic list \<Rightarrow> Diagnostic list" where
  "Append diags [] = diags"
| "Append diags (d # rest) = Append (if d \<in> set diags then diags else diags @ [d]) rest"

definition AddError :: "Diagnostic list \<Rightarrow> string \<Rightarrow> string \<Rightarrow> Diagnostic list" where
  "AddError diags summary detail =
     Append diags [\<lparr>Diagnostic_Severity = Severity_Error, Diagnostic_Summary = summary,
                    Diagnostic_Detail = detail\<rparr>]"

text \<open>
  \<^verbatim>\<open>FrameworkProvider.Configure\<close>. The framework decodes the request's configuration
  (\<^verbatim>\<open>req.Config.Get\<close>) into the diagnostics \<open>decoded_diags\<close> and the model \<open>config\<close>;
  \<open>resp\<close> is the response the framework passes in.
\<close>

definition Configure ::
  "Diagnostic list \<Rightarrow> FrameworkProviderModel \<Rightarrow> ConfigureResponse \<Rightarrow> ConfigureResponse" where
  "Configure decoded_diags config resp0 =
     (let resp = resp0\<lparr>Diagnostics := Append (Diagnostics resp0) decoded_diags\<rparr> in
      if HasError (Diagnostics resp) then resp
      else
        (let apiKey = ValueString (ApiKey config) in
         if apiKey = [] then
           resp\<lparr>Diagnostics := AddError (Diagnostics resp)
             ''Unable to create NetActuate API client''
             ''Unable to find NetActuate API key. It can be set with either NETACTUATE_API_KEY environment variable or 'api_key' property''\<rparr>
         else
           (let apiUrl = ValueString (ApiUrl config);
                client = (if apiUrl = [] then NewClient apiKey else NewClientCustom apiKey apiUrl)
            in resp\<lparr>DataSourceData := Some client, ResourceData := Some client\<rparr>)))"

definition empty_response :: ConfigureResponse where
  "empty_response = \<lparr>Diagnostics = [], DataSourceData = None, ResourceData = None\<rparr>"

section \<open>Concrete backends and inputs\<close>

text \<open>The server that \<^verbatim>\<open>CreateServer\<close> stores for \<open>test_request\<close> on a fresh backend.\<close>

definition created_server :: Server where
  "created_server = \<lparr>Server_ID = 1000, Server_Name = ''test.example.com'',
     Server_OS = ''Ubuntu 22.04 LTS'', Server_OSID = 1,
     Server_PrimaryIPv4 = ''192.0.2.232'', Server_PrimaryIPv6 = ''2001:db8::3e8'', Server_PlanID = 1,
     Server_Package = ''test-plan'', Server_PackageBilling = ''usage'',
     Server_PackageBillingContractId = ''contract-123'', Server_Location = ''AMS Amsterdam'',
     Server_LocationID = 1, Server_ServerStatus = ''RUNNING'', Server_PowerStatus = ''on'',
     Server_Installed = 1, Server_CloudPool = []\<rparr>"

text \<open>A request whose image and location ids are in neither reference list.\<close>

definition unmatched_request :: CreateServerRequest where
  "unmatched_request = test_request\<lparr>CreateServerRequest_Image := 99,
     CreateServerRequest_Location := 99\<rparr>"

text \<open>A record a test inserts with \<^verbatim>\<open>AddServer\<close> under the id the counter starts at.\<close>

definition custom_server :: Server where
  "custom_server = zero_Server\<lparr>Server_ID := 1000, Server_Name := ''custom.example.com'',
     Server_ServerStatus := ''RUNNING''\<rparr>"

text \<open>The backend after one \<^verbatim>\<open>CreateServer\<close>, and a fresh backend with an injected error.\<close>

definition one_server :: FakeClient where
  "one_server = snd (CreateServer NewFakeClient test_request)"

definition failing_client :: FakeClient where
  "failing_client = NewFakeClient\<lparr>GetServerError := Some (Error ''test error'')\<rparr>"

definition test_run :: "call list" where
  "test_run = [Call_CreateServer test_request, Call_DeleteServer 1000 True,
     Call_CreateServer test_request, Call_UnlinkServer 1000, Call_CreateServer unmatched_request]"




section \<open>Evaluation lemmas\<close>

lemmas op_defs = CreateServer_def GetServer_def BuildServer_def DeleteServer_def UnlinkServer_def
  CreateSSHKey_def GetSSHKey_def DeleteSSHKey_def CreateBGPSessions_def GetBGPSessions_def
  GetIPs_def GetLocations_def GetOSs_def

lemma go_rem_nonneg: "0 \<le> a \<Longrightarrow> go_rem a 256 = a mod 256"
  by (cases "a = 0") (simp_all add: go_rem_def)

lemma sprintf_d_1000: "sprintf_d 1000 = ''1000''"
  by (simp add: sprintf_d_def dec_digits.simps digit_char_def)


lemma sprintf_d_232: "sprintf_d 232 = ''232''"
  by (simp add: sprintf_d_def dec_digits.simps digit_char_def)

lemma sprintf_x_1000: "sprintf_x 1000 = ''3e8''"
  by (simp add: sprintf_x_def hex_digits.simps digit_char_def)

lemma go_rem_1000: "go_rem 1000 256 = 232"
  by (simp add: go_rem_def)

lemma wrap64_id: "- (2 ^ 63) \<le> x \<Longrightarrow> x < 2 ^ 63 \<Longrightarrow> wrap64 x = x"
  by (simp add: wrap64_def)

lemma wrap64_1001: "wrap64 1001 = 1001"
  by (simp add: wrap64_def)

lemma CreateServer_fresh:
  "CreateServer NewFakeClient test_request =
     (Inr \<lparr>ServerBuild_ServerID = 1000, ServerBuild_Status = ''building'', ServerBuild_Build = 1\<rparr>,
      NewFakeClient\<lparr>nextServerID := 1001, servers := [1000 \<mapsto> created_server],
        calls := [''CreateServer'']\<rparr>)"
  by (simp add: CreateServer_def NewFakeClient_def test_request_def trackCall_def Let_def
      zero_Server_def zero_OS_def zero_Location_def created_server_def
      sprintf_d_232 sprintf_x_1000 go_rem_1000 wrap64_1001)

lemma one_server_eq:
  "one_server = NewFakeClient\<lparr>nextServerID := 1001, servers := [1000 \<mapsto> created_server],
     calls := [''CreateServer'']\<rparr>"
  by (simp add: one_server_def CreateServer_fresh)

section \<open>Identifiers\<close>

lemma invoke_CreateServerError: "CreateServerError (snd (invoke f c)) = CreateServerError f"
  by (cases c) (simp_all add: op_defs trackCall_def Let_def split: option.splits)

lemma invoke_nextServerID:
  "nextServerID (snd (invoke f c)) =
     (if is_CreateServer c \<and> CreateServerError f = None then wrap64 (nextServerID f + 1)
      else nextServerID f)"
  by (cases c) (simp_all add: op_defs trackCall_def Let_def split: option.splits)

lemma issued_id_invoke:
  "issued_id c (fst (invoke f c)) =
     (if is_CreateServer c \<and> CreateServerError f = None then [nextServerID f] else [])"
  by (cases c) (simp_all add: op_defs trackCall_def Let_def split: option.splits)

lemma created_ids_from:
  "CreateServerError f = None \<Longrightarrow> - (2 ^ 63) \<le> nextServerID f \<Longrightarrow>
   nextServerID f + int (length (filter is_CreateServer cs)) < 2 ^ 63 \<Longrightarrow>
   created_ids f cs = map (\<lambda>k. nextServerID f + int k) [0..<length (filter is_CreateServer cs)]"
proof (induction cs arbitrary: f)
  case Nil
  then show ?case by simp
next
  case (Cons c cs)
  let ?f' = "snd (invoke f c)"
  have err: "CreateServerError ?f' = None"
    using Cons.prems(1) by (simp add: invoke_CreateServerError)
  show ?case
  proof (cases "is_CreateServer c")
    case True
    have small: "nextServerID f + 1 < 2 ^ 63"
      using Cons.prems(3) True by simp
    have nxt: "nextServerID ?f' = nextServerID f + 1"
      using True Cons.prems(1,2) small by (simp add: invoke_nextServerID wrap64_id)
    have "created_ids ?f' cs
            = map (\<lambda>k. nextServerID ?f' + int k) [0..<length (filter is_CreateServer cs)]"
      using Cons.prems(2,3) True nxt by (intro Cons.IH [OF err]) simp_all
    then have rest: "created_ids ?f' cs
            = map (\<lambda>k. nextServerID f + int (Suc k)) [0..<length (filter is_CreateServer cs)]"
      by (simp add: nxt)
    have "[0..<Suc (length (filter is_CreateServer cs))]
            = 0 # map Suc [0..<length (filter is_CreateServer cs)]"
      by (simp add: upt_conv_Cons map_Suc_upt del: upt_Suc)
    then show ?thesis
      using True Cons.prems(1) rest by (simp add: issued_id_invoke comp_def del: upt_Suc)
  next
    case False
    have nxt: "nextServerID ?f' = nextServerID f"
      using False by (simp add: invoke_nextServerID)
    have "created_ids ?f' cs
            = map (\<lambda>k. nextServerID ?f' + int k) [0..<length (filter is_CreateServer cs)]"
      using Cons.prems(2,3) False nxt by (intro Cons.IH [OF err]) simp_all
    then show ?thesis
      using False by (simp add: issued_id_invoke nxt)
  qed
qed

lemma sorted_shifted_upt: "sorted_wrt (<) (map (\<lambda>k. (n::int) + int k) [0..<m])"
  by (simp add: sorted_wrt_map)

lemma distinct_shifted_upt: "distinct (map (\<lambda>k. (n::int) + int k) [0..<m])"
  by (simp add: distinct_map inj_on_def)

text \<open>
  Claim C1. On a backend made by \<^verbatim>\<open>NewFakeClient\<close> and driven only through the interface
  (no helper, no injected error), the ids returned by the \<^verbatim>\<open>CreateServer\<close> calls of a
  run are 1000, 1001, 1002, ... in the order of the calls, whatever other calls
  (\<^verbatim>\<open>DeleteServer\<close> and \<^verbatim>\<open>UnlinkServer\<close> among them) lie in between: every id is
  strictly greater than all earlier ones, none occurs twice, the first is 1000. The
  counter is a 64-bit integer, so the run is one of fewer than \<open>2 ^ 63 - 1000\<close>
  creations.
\<close>

theorem CreateServer_ids_strictly_increasing:
  assumes "int (length (filter is_CreateServer cs)) < 2 ^ 63 - 1000"
  shows "created_ids NewFakeClient cs
           = map (\<lambda>k. 1000 + int k) [0..<length (filter is_CreateServer cs)]
     \<and> sorted_wrt (<) (created_ids NewFakeClient cs)
     \<and> distinct (created_ids NewFakeClient cs)"
proof -
  have "created_ids NewFakeClient cs
          = map (\<lambda>k. nextServerID NewFakeClient + int k) [0..<length (filter is_CreateServer cs)]"
    using assms by (intro created_ids_from) (simp_all add: NewFakeClient_def)
  then have eq: "created_ids NewFakeClient cs
          = map (\<lambda>k. 1000 + int k) [0..<length (filter is_CreateServer cs)]"
    by (simp add: NewFakeClient_def)
  show ?thesis
    unfolding eq using sorted_shifted_upt distinct_shifted_upt by blast
qed

theorem CreateServer_ids_strictly_increasing_witness:
  "int (length (filter is_CreateServer test_run)) < 2 ^ 63 - 1000
   \<and> created_ids NewFakeClient test_run = [1000, 1001, 1002]"
proof -
  have h: "int (length (filter is_CreateServer test_run)) < 2 ^ 63 - 1000"
    by (simp add: test_run_def)
  have n: "length (filter is_CreateServer test_run) = 3"
    by (simp add: test_run_def)
  show ?thesis
    using h CreateServer_ids_strictly_increasing [OF h] by (simp add: n upt_rec)
qed

section \<open>The server operations\<close>

lemma set_os_name_others:
  "Server_Location (set_os_name l img sv) = Server_Location sv
   \<and> Server_ServerStatus (set_os_name l img sv) = Server_ServerStatus sv"
  by (induction l) auto

lemma set_location_name_others:
  "Server_OS (set_location_name l loc sv) = Server_OS sv
   \<and> Server_ServerStatus (set_location_name l loc sv) = Server_ServerStatus sv"
  by (induction l) auto

lemma set_os_name_find:
  "set_os_name l img sv =
     (case find (\<lambda>x. OS_ID x = img) l of None \<Rightarrow> sv | Some os \<Rightarrow> sv\<lparr>Server_OS := OS_Os os\<rparr>)"
  by (induction l) auto

lemma set_location_name_find:
  "set_location_name l loc sv =
     (case find (\<lambda>x. Location_ID x = loc) l of None \<Rightarrow> sv
      | Some lc \<Rightarrow> sv\<lparr>Server_Location := Location_Name lc\<rparr>)"
  by (induction l) auto

lemma find_miss: "k \<notin> g ` set l \<Longrightarrow> find (\<lambda>x. g x = k) l = None"
  by (auto simp add: find_None_iff)

lemma CreateServer_fresh_any:
  assumes "CreateServerRequest_FQDN r = ''test.example.com''"
    and "CreateServerRequest_Location r = 1" and "CreateServerRequest_Image r = 1"
  shows "fst (CreateServer NewFakeClient r)
       = Inr \<lparr>ServerBuild_ServerID = 1000, ServerBuild_Status = ''building'', ServerBuild_Build = 1\<rparr>
     \<and> servers (snd (CreateServer NewFakeClient r)) 1000
       = Some \<lparr>Server_ID = 1000, Server_Name = ''test.example.com'',
           Server_OS = ''Ubuntu 22.04 LTS'', Server_OSID = 1,
           Server_PrimaryIPv4 = ''192.0.2.'' @ sprintf_d (1000 mod 256),
           Server_PrimaryIPv6 = ''2001:db8::'' @ sprintf_x 1000, Server_PlanID = 1,
           Server_Package = CreateServerRequest_Plan r,
           Server_PackageBilling = CreateServerRequest_PackageBilling r,
           Server_PackageBillingContractId = CreateServerRequest_PackageBillingContractId r,
           Server_Location = ''AMS Amsterdam'', Server_LocationID = 1,
           Server_ServerStatus = ''RUNNING'', Server_PowerStatus = ''on'',
           Server_Installed = 1, Server_CloudPool = []\<rparr>"
  using assms
  by (simp add: CreateServer_def NewFakeClient_def trackCall_def Let_def
      zero_Server_def zero_OS_def zero_Location_def go_rem_1000 wrap64_1001)

lemma CreateServer_any:
  assumes "CreateServerError f = None"
  shows "fst (CreateServer f r)
       = Inr \<lparr>ServerBuild_ServerID = nextServerID f, ServerBuild_Status = ''building'',
               ServerBuild_Build = 1\<rparr>
     \<and> (\<exists>sv. servers (snd (CreateServer f r)) (nextServerID f) = Some sv
          \<and> Server_ID sv = nextServerID f
          \<and> Server_Name sv = CreateServerRequest_FQDN r
          \<and> Server_ServerStatus sv = ''RUNNING''
          \<and> Server_PrimaryIPv4 sv = ''192.0.2.'' @ sprintf_d (go_rem (nextServerID f) 256)
          \<and> Server_PrimaryIPv6 sv = ''2001:db8::'' @ sprintf_x (nextServerID f)
          \<and> Server_OS sv =
              (case find (\<lambda>x. OS_ID x = CreateServerRequest_Image r) (oses f) of
                 None \<Rightarrow> [] | Some os \<Rightarrow> OS_Os os)
          \<and> Server_Location sv =
              (case find (\<lambda>x. Location_ID x = CreateServerRequest_Location r) (locations f) of
                 None \<Rightarrow> [] | Some lc \<Rightarrow> Location_Name lc)
          \<and> (CreateServerRequest_Image r \<notin> OS_ID ` set (oses f) \<longrightarrow> Server_OS sv = [])
          \<and> (CreateServerRequest_Location r \<notin> Location_ID ` set (locations f)
               \<longrightarrow> Server_Location sv = []))"
  using assms
  by (auto simp add: CreateServer_def trackCall_def Let_def set_os_name_find set_location_name_find
        zero_Server_def find_miss split: option.splits)

text \<open>
  Claim C3. On a fresh backend, \<^verbatim>\<open>CreateServer\<close> with any request whose FQDN is
  "test.example.com", whose location is 1 and whose image is 1 succeeds with the build
  result (id 1000, status "building", build 1) and stores under 1000 a server named
  "test.example.com" with status "RUNNING", location "AMS Amsterdam", OS
  "Ubuntu 22.04 LTS", IPv4 address "192.0.2." followed by 1000 mod 256 (232) and IPv6
  address "2001:db8::" followed by 1000 in hex (3e8); the other fields come from the
  request or are fixed. On any backend without an injected error and for any request
  the call succeeds, echoes the id it allocated and stores a running server named after
  the request, with the name of the first reference entry that has the requested image
  or location id, and with an empty name when no entry has it.
\<close>

theorem CreateServer_scenario:
  "(CreateServerRequest_FQDN r = ''test.example.com'' \<and> CreateServerRequest_Location r = 1
      \<and> CreateServerRequest_Image r = 1 \<longrightarrow>
       fst (CreateServer NewFakeClient r)
         = Inr \<lparr>ServerBuild_ServerID = 1000, ServerBuild_Status = ''building'', ServerBuild_Build = 1\<rparr>
     \<and> servers (snd (CreateServer NewFakeClient r)) 1000
         = Some \<lparr>Server_ID = 1000, Server_Name = ''test.example.com'',
             Server_OS = ''Ubuntu 22.04 LTS'', Server_OSID = 1,
             Server_PrimaryIPv4 = ''192.0.2.'' @ sprintf_d (1000 mod 256),
             Server_PrimaryIPv6 = ''2001:db8::'' @ sprintf_x 1000, Server_PlanID = 1,
             Server_Package = CreateServerRequest_Plan r,
             Server_PackageBilling = CreateServerRequest_PackageBilling r,
             Server_PackageBillingContractId = CreateServerRequest_PackageBillingContractId r,
             Server_Location = ''AMS Amsterdam'', Server_LocationID = 1,
             Server_ServerStatus = ''RUNNING'', Server_PowerStatus = ''on'',
             Server_Installed = 1, Server_CloudPool = []\<rparr>)
   \<and> sprintf_d (1000 mod 256) = ''232'' \<and> sprintf_x 1000 = ''3e8''
   \<and> (CreateServerError f = None \<longrightarrow>
       fst (CreateServer f q)
         = Inr \<lparr>ServerBuild_ServerID = nextServerID f, ServerBuild_Status = ''building'',
                 ServerBuild_Build = 1\<rparr>
     \<and> (\<exists>sv. servers (snd (CreateServer f q)) (nextServerID f) = Some sv
          \<and> Server_ID sv = nextServerID f
          \<and> Server_Name sv = CreateServerRequest_FQDN q
          \<and> Server_ServerStatus sv = ''RUNNING''
          \<and> Server_PrimaryIPv4 sv = ''192.0.2.'' @ sprintf_d (go_rem (nextServerID f) 256)
          \<and> Server_PrimaryIPv6 sv = ''2001:db8::'' @ sprintf_x (nextServerID f)
          \<and> Server_OS sv =
              (case find (\<lambda>x. OS_ID x = CreateServerRequest_Image q) (oses f) of
                 None \<Rightarrow> [] | Some os \<Rightarrow> OS_Os os)
          \<and> Server_Location sv =
              (case find (\<lambda>x. Location_ID x = CreateServerRequest_Location q) (locations f) of
                 None \<Rightarrow> [] | Some lc \<Rightarrow> Location_Name lc)
          \<and> (CreateServerRequest_Image q \<notin> OS_ID ` set (oses f) \<longrightarrow> Server_OS sv = [])
          \<and> (CreateServerRequest_Location q \<notin> Location_ID ` set (locations f)
               \<longrightarrow> Server_Location sv = [])))"
proof -
  have digits: "sprintf_d (1000 mod 256) = ''232'' \<and> sprintf_x 1000 = ''3e8''"
    by (simp add: sprintf_d_232 sprintf_x_1000)
  show ?thesis
    using CreateServer_fresh_any [of r] CreateServer_any [of f q] digits by blast
qed

theorem CreateServer_scenario_witness:
  "CreateServerRequest_FQDN test_request = ''test.example.com''
   \<and> CreateServerRequest_Location test_request = 1 \<and> CreateServerRequest_Image test_request = 1
   \<and> fst (CreateServer NewFakeClient test_request)
        = Inr \<lparr>ServerBuild_ServerID = 1000, ServerBuild_Status = ''building'', ServerBuild_Build = 1\<rparr>
   \<and> servers (snd (CreateServer NewFakeClient test_request)) 1000 = Some created_server
   \<and> CreateServerError NewFakeClient = None
   \<and> CreateServerRequest_Image unmatched_request \<notin> OS_ID ` set (oses NewFakeClient)
   \<and> CreateServerRequest_Location unmatched_request \<notin> Location_ID ` set (locations NewFakeClient)
   \<and> (\<exists>sv. servers (snd (CreateServer NewFakeClient unmatched_request)) 1000 = Some sv
          \<and> Server_Name sv = ''test.example.com'' \<and> Server_ServerStatus sv = ''RUNNING''
          \<and> Server_OS sv = [] \<and> Server_Location sv = [])"
proof -
  have r1: "CreateServerRequest_FQDN test_request = ''test.example.com''
     \<and> CreateServerRequest_Location test_request = 1 \<and> CreateServerRequest_Image test_request = 1"
    by (simp add: test_request_def)
  have r2: "CreateServerRequest_Plan test_request = ''test-plan''
     \<and> CreateServerRequest_PackageBilling test_request = ''usage''
     \<and> CreateServerRequest_PackageBillingContractId test_request = ''contract-123''"
    by (simp add: test_request_def)
  have h1: "CreateServerError NewFakeClient = None \<and> nextServerID NewFakeClient = 1000"
    by (simp add: NewFakeClient_def)
  have h2: "CreateServerRequest_Image unmatched_request \<notin> OS_ID ` set (oses NewFakeClient)"
    by (simp add: NewFakeClient_def unmatched_request_def test_request_def zero_OS_def)
  have h3: "CreateServerRequest_Location unmatched_request
              \<notin> Location_ID ` set (locations NewFakeClient)"
    by (simp add: NewFakeClient_def unmatched_request_def test_request_def zero_Location_def)
  have h4: "CreateServerRequest_FQDN unmatched_request = ''test.example.com''"
    by (simp add: unmatched_request_def test_request_def)
  have a: "fst (CreateServer NewFakeClient test_request)
        = Inr \<lparr>ServerBuild_ServerID = 1000, ServerBuild_Status = ''building'', ServerBuild_Build = 1\<rparr>
     \<and> servers (snd (CreateServer NewFakeClient test_request)) 1000 = Some created_server"
    using CreateServer_scenario [of test_request NewFakeClient unmatched_request] r1 r2
    by (simp add: created_server_def)
  have b: "\<exists>sv. servers (snd (CreateServer NewFakeClient unmatched_request)) 1000 = Some sv
          \<and> Server_Name sv = ''test.example.com'' \<and> Server_ServerStatus sv = ''RUNNING''
          \<and> Server_OS sv = [] \<and> Server_Location sv = []"
    using CreateServer_scenario [of test_request NewFakeClient unmatched_request] h1 h2 h3 h4
    by auto
  show ?thesis
    using r1 a h1 h2 h3 b by blast
qed

text \<open>
  Claim C5. Without injected errors, \<^verbatim>\<open>UnlinkServer\<close> returns no error whether or not
  the id is stored, a following \<^verbatim>\<open>GetServer\<close> on that id fails with the not-found
  error, and a second \<^verbatim>\<open>UnlinkServer\<close> on the id returns no error and leaves the
  backend as the first left it, the call log apart.
\<close>

theorem UnlinkServer_idempotent:
  assumes "UnlinkServerError f = None" and "GetServerError f = None"
  shows "fst (UnlinkServer f i) = None
     \<and> fst (GetServer (snd (UnlinkServer f i)) i) = Inl (Error (''server '' @ sprintf_d i @ '' not found''))
     \<and> fst (UnlinkServer (snd (UnlinkServer f i)) i) = None
     \<and> entity_state (snd (UnlinkServer (snd (UnlinkServer f i)) i)) = entity_state (snd (UnlinkServer f i))
     \<and> snd (UnlinkServer (snd (UnlinkServer f i)) i)
         = trackCall (snd (UnlinkServer f i)) (''UnlinkServer('' @ sprintf_d i @ '')'')"
  using assms by (simp add: UnlinkServer_def GetServer_def trackCall_def entity_state_def Let_def)

theorem UnlinkServer_idempotent_witness:
  "UnlinkServerError one_server = None \<and> GetServerError one_server = None
   \<and> servers one_server 1000 = Some created_server
   \<and> fst (UnlinkServer one_server 1000) = None
   \<and> fst (GetServer (snd (UnlinkServer one_server 1000)) 1000) = Inl (Error ''server 1000 not found'')
   \<and> fst (UnlinkServer (snd (UnlinkServer one_server 1000)) 1000) = None
   \<and> entity_state (snd (UnlinkServer (snd (UnlinkServer one_server 1000)) 1000))
       = entity_state (snd (UnlinkServer one_server 1000))"
proof -
  have h1: "UnlinkServerError one_server = None"
    by (simp add: one_server_eq NewFakeClient_def)
  have h2: "GetServerError one_server = None"
    by (simp add: one_server_eq NewFakeClient_def)
  have h3: "servers one_server 1000 = Some created_server"
    by (simp add: one_server_eq)
  show ?thesis
    using h1 h2 h3 UnlinkServer_idempotent [OF h1 h2, of 1000]
    by (simp add: sprintf_d_1000 entity_state_def trackCall_def)
qed

text \<open>
  Claim C6. Without an injected error, \<^verbatim>\<open>GetIPs\<close> returns the allocation stored for the
  id (as \<^verbatim>\<open>SetIPs\<close> stores it) when there is one; otherwise, when a server with the id
  exists, exactly one IPv4 address "192.0.2." followed by the id's remainder by 256 and
  one IPv6 address "2001:db8::" followed by the id in hex; otherwise the empty allocation.
  It never returns an error. The remainder is Go's, which is the id mod 256 for every id
  that is not negative.
\<close>

theorem GetIPs_never_fails:
  assumes "GetIPsError f = None"
  shows "(\<forall>a. ips f i = Some a \<longrightarrow> fst (GetIPs f i) = Inr a)
     \<and> fst (GetIPs (SetIPs f i a) i) = Inr a
     \<and> (ips f i = None \<and> servers f i \<noteq> None \<longrightarrow>
          fst (GetIPs f i) = Inr \<lparr>
            IPs_IPv4 = [zero_IP\<lparr>IP_ID := 1, IP_IP := ''192.0.2.'' @ sprintf_d (go_rem i 256),
                         IP_Primary := 1, IP_Gateway := ''192.0.2.1'', IP_Netmask := ''255.255.255.0''\<rparr>],
            IPs_IPv6 = [zero_IP\<lparr>IP_ID := 2, IP_IP := ''2001:db8::'' @ sprintf_x i,
                         IP_Primary := 1, IP_Gateway := ''2001:db8::1'',
                         IP_Netmask := ''ffff:ffff:ffff:ffff::''\<rparr>]\<rparr>)
     \<and> (ips f i = None \<and> servers f i = None \<longrightarrow> fst (GetIPs f i) = Inr zero_IPs)
     \<and> (\<exists>v. fst (GetIPs f i) = Inr v)
     \<and> (0 \<le> i \<longrightarrow> go_rem i 256 = i mod 256)"
  using assms
  by (auto simp add: GetIPs_def SetIPs_def trackCall_def Let_def go_rem_nonneg split: option.splits)

theorem GetIPs_never_fails_witness:
  "GetIPsError one_server = None \<and> ips one_server 1000 = None \<and> servers one_server 1000 \<noteq> None
   \<and> fst (GetIPs one_server 1000) = Inr \<lparr>
        IPs_IPv4 = [zero_IP\<lparr>IP_ID := 1, IP_IP := ''192.0.2.232'',
                     IP_Primary := 1, IP_Gateway := ''192.0.2.1'', IP_Netmask := ''255.255.255.0''\<rparr>],
        IPs_IPv6 = [zero_IP\<lparr>IP_ID := 2, IP_IP := ''2001:db8::3e8'',
                     IP_Primary := 1, IP_Gateway := ''2001:db8::1'',
                     IP_Netmask := ''ffff:ffff:ffff:ffff::''\<rparr>]\<rparr>
   \<and> ips one_server 7 = None \<and> servers one_server 7 = None
   \<and> fst (GetIPs one_server 7) = Inr zero_IPs"
proof -
  have h1: "GetIPsError one_server = None"
    by (simp add: one_server_eq NewFakeClient_def)
  have h2: "ips one_server 1000 = None \<and> servers one_server 1000 \<noteq> None"
    by (simp add: one_server_eq NewFakeClient_def)
  have h3: "ips one_server 7 = None \<and> servers one_server 7 = None"
    by (simp add: one_server_eq NewFakeClient_def)
  show ?thesis
    using h1 h2 h3 GetIPs_never_fails [OF h1, of 1000] GetIPs_never_fails [OF h1, of 7]
    by (simp add: go_rem_1000 sprintf_d_232 sprintf_x_1000)
qed

section \<open>Injected errors and ignored flags\<close>

text \<open>
  Claim C7. When the error field of an operation holds an error, the operation returns
  that very error and the backend after the call is the backend before it with one more
  entry in the call log: servers, SSH keys, BGP sessions, IP allocations, both reference
  lists and the three counters are unchanged.
\<close>

theorem injected_error_short_circuits:
  assumes "injected_error f c = Some e"
  shows "reply_error (fst (invoke f c)) = Some e
     \<and> entity_state (snd (invoke f c)) = entity_state f
     \<and> snd (invoke f c) = f\<lparr>calls := calls (snd (invoke f c))\<rparr>
     \<and> butlast (calls (snd (invoke f c))) = calls f"
  using assms
  by (cases c) (simp_all add: op_defs trackCall_def entity_state_def Let_def sum_error_def)

theorem injected_error_short_circuits_witness:
  "injected_error failing_client (Call_GetServer 123) = Some (Error ''test error'')
   \<and> reply_error (fst (invoke failing_client (Call_GetServer 123))) = Some (Error ''test error'')
   \<and> entity_state (snd (invoke failing_client (Call_GetServer 123))) = entity_state failing_client"
proof -
  have h: "injected_error failing_client (Call_GetServer 123) = Some (Error ''test error'')"
    by (simp add: failing_client_def)
  show ?thesis
    using h injected_error_short_circuits [OF h] by simp
qed

text \<open>
  Claim C8. Two \<^verbatim>\<open>DeleteServer\<close> calls on the same backend and id that differ only in
  \<^verbatim>\<open>cancelBilling\<close> return the same result and leave backends that agree everywhere but
  in the call log; the same holds for two \<^verbatim>\<open>CreateBGPSessions\<close> calls that differ only
  in \<^verbatim>\<open>redundant\<close>.
\<close>

theorem flags_do_not_alter_state:
  "fst (DeleteServer f i b) = fst (DeleteServer f i b')
   \<and> entity_state (snd (DeleteServer f i b)) = entity_state (snd (DeleteServer f i b'))
   \<and> (snd (DeleteServer f i b))\<lparr>calls := []\<rparr> = (snd (DeleteServer f i b'))\<lparr>calls := []\<rparr>
   \<and> fst (CreateBGPSessions f s g v r) = fst (CreateBGPSessions f s g v r')
   \<and> entity_state (snd (CreateBGPSessions f s g v r)) = entity_state (snd (CreateBGPSessions f s g v r'))
   \<and> (snd (CreateBGPSessions f s g v r))\<lparr>calls := []\<rparr> = (snd (CreateBGPSessions f s g v r'))\<lparr>calls := []\<rparr>"
  by (simp add: DeleteServer_def CreateBGPSessions_def trackCall_def entity_state_def Let_def
      split: option.splits)

section \<open>Helpers and the id counter\<close>

text \<open>
  Claim C10. \<^verbatim>\<open>AddServer\<close> stores the record under its own id and leaves the id counter
  alone. After \<^verbatim>\<open>AddServer\<close> with id 1000 on a fresh backend, \<^verbatim>\<open>CreateServer\<close> returns
  id 1000 and the record stored under 1000 is the created one, not the inserted one.
\<close>

theorem AddServer_counter_collision:
  "nextServerID (AddServer f sv) = nextServerID f
   \<and> servers (AddServer f sv) (Server_ID sv) = Some sv
   \<and> servers (AddServer NewFakeClient custom_server) 1000 = Some custom_server
   \<and> fst (CreateServer (AddServer NewFakeClient custom_server) test_request)
       = Inr \<lparr>ServerBuild_ServerID = 1000, ServerBuild_Status = ''building'', ServerBuild_Build = 1\<rparr>
   \<and> servers (snd (CreateServer (AddServer NewFakeClient custom_server) test_request)) 1000
       = Some created_server
   \<and> created_server \<noteq> custom_server"
  by (simp add: AddServer_def CreateServer_def NewFakeClient_def test_request_def trackCall_def Let_def
      zero_Server_def zero_OS_def zero_Location_def created_server_def custom_server_def
      sprintf_d_232 sprintf_x_1000 go_rem_1000 wrap64_1001)

section \<open>Status of a stored server\<close>

lemma invoke_status_step:
  assumes "servers f i = Some sv" and "servers f (nextServerID f) = None"
  shows "(servers (snd (invoke f c)) i = None \<longrightarrow> c = Call_UnlinkServer i)
     \<and> (\<forall>sv'. servers (snd (invoke f c)) i = Some sv'
            \<and> Server_ServerStatus sv' \<noteq> Server_ServerStatus sv \<longrightarrow>
          (\<exists>b. c = Call_DeleteServer i b) \<and> Server_ServerStatus sv' = ''TERMINATED''
        \<or> (\<exists>r. c = Call_BuildServer i r) \<and> Server_ServerStatus sv' = ''RUNNING'')"
proof -
  have ne: "i \<noteq> nextServerID f"
    using assms by auto
  show ?thesis
    using assms ne
    by (cases c)
       (auto simp add: op_defs trackCall_def Let_def set_os_name_others set_location_name_others
             split: option.splits if_splits)
qed

lemma invoke_servers_bound:
  assumes "\<forall>i. servers f i \<noteq> None \<longrightarrow> i < nextServerID f"
    and "is_CreateServer c \<longrightarrow> nextServerID f + 1 < 2 ^ 63"
    and "- (2 ^ 63) \<le> nextServerID f"
  shows "\<forall>i. servers (snd (invoke f c)) i \<noteq> None \<longrightarrow> i < nextServerID (snd (invoke f c))"
  using assms
  by (cases c)
     (auto simp add: op_defs trackCall_def Let_def wrap64_id split: option.splits if_splits)

lemma invoke_nextServerID_le:
  assumes "is_CreateServer c \<longrightarrow> nextServerID f + 1 < 2 ^ 63" and "- (2 ^ 63) \<le> nextServerID f"
  shows "nextServerID f \<le> nextServerID (snd (invoke f c))
     \<and> nextServerID (snd (invoke f c)) \<le> nextServerID f + (if is_CreateServer c then 1 else 0)"
  using assms by (simp add: invoke_nextServerID wrap64_id)

lemma run_servers_bound:
  "\<forall>i. servers f i \<noteq> None \<longrightarrow> i < nextServerID f \<Longrightarrow> - (2 ^ 63) \<le> nextServerID f \<Longrightarrow>
   nextServerID f + int (length (filter is_CreateServer cs)) < 2 ^ 63 \<Longrightarrow>
   \<forall>i. servers (run f cs) i \<noteq> None \<longrightarrow> i < nextServerID (run f cs)"
proof (induction cs arbitrary: f)
  case Nil
  then show ?case by simp
next
  case (Cons c cs)
  let ?f' = "snd (invoke f c)"
  have step: "is_CreateServer c \<longrightarrow> nextServerID f + 1 < 2 ^ 63"
    using Cons.prems(3) by auto
  have b: "\<forall>i. servers ?f' i \<noteq> None \<longrightarrow> i < nextServerID ?f'"
    by (rule invoke_servers_bound [OF Cons.prems(1) step Cons.prems(2)])
  have le: "nextServerID f \<le> nextServerID ?f'
     \<and> nextServerID ?f' \<le> nextServerID f + (if is_CreateServer c then 1 else 0)"
    by (rule invoke_nextServerID_le [OF step Cons.prems(2)])
  have lo: "- (2 ^ 63) \<le> nextServerID ?f'"
    using le Cons.prems(2) by linarith
  have hi: "nextServerID ?f' + int (length (filter is_CreateServer cs)) < 2 ^ 63"
    using le Cons.prems(3) by (auto split: if_splits)
  show ?case
    using Cons.IH [OF b lo hi] by simp
qed

lemma run_create: "run NewFakeClient [Call_CreateServer test_request] = one_server"
  by (simp add: one_server_def)

lemma run_create_delete:
  "run NewFakeClient [Call_CreateServer test_request, Call_DeleteServer 1000 True]
     = snd (DeleteServer one_server 1000 True)"
  by (simp add: one_server_def)

lemma DeleteServer_one_server:
  "snd (DeleteServer one_server 1000 True)
     = NewFakeClient\<lparr>nextServerID := 1001,
         servers := [1000 \<mapsto> created_server\<lparr>Server_ServerStatus := ''TERMINATED''\<rparr>],
         calls := [''CreateServer'', ''DeleteServer(1000, true)'']\<rparr>"
  by (simp add: one_server_eq DeleteServer_def trackCall_def Let_def NewFakeClient_def
        sprintf_d_1000 sprintf_v_def)

text \<open>
  Claim C2, amended. Take a backend reached from \<^verbatim>\<open>NewFakeClient\<close> through interface
  calls (fewer than \<open>2 ^ 63 - 1000\<close> creations, the range of the 64-bit counter) and a
  server stored in it. One further interface call removes the record only if it is
  \<^verbatim>\<open>UnlinkServer\<close> on its id, and changes its status only if it is \<^verbatim>\<open>DeleteServer\<close> on
  its id, which sets "TERMINATED" and keeps the record, or \<^verbatim>\<open>BuildServer\<close> on its id,
  which sets "RUNNING" whatever the status was.
\<close>

theorem status_changes_only_by_Delete_or_Build:
  assumes "int (length (filter is_CreateServer cs)) < 2 ^ 63 - 1000"
    and "servers (run NewFakeClient cs) i = Some sv"
  shows "(servers (snd (invoke (run NewFakeClient cs) c)) i = None \<longrightarrow> c = Call_UnlinkServer i)
     \<and> (\<forall>sv'. servers (snd (invoke (run NewFakeClient cs) c)) i = Some sv'
            \<and> Server_ServerStatus sv' \<noteq> Server_ServerStatus sv \<longrightarrow>
          (\<exists>b. c = Call_DeleteServer i b) \<and> Server_ServerStatus sv' = ''TERMINATED''
        \<or> (\<exists>r. c = Call_BuildServer i r) \<and> Server_ServerStatus sv' = ''RUNNING'')"
proof -
  have "\<forall>i. servers (run NewFakeClient cs) i \<noteq> None \<longrightarrow> i < nextServerID (run NewFakeClient cs)"
    using assms(1) by (intro run_servers_bound) (simp_all add: NewFakeClient_def)
  then have "servers (run NewFakeClient cs) (nextServerID (run NewFakeClient cs)) = None"
    by force
  with assms(2) show ?thesis
    by (rule invoke_status_step)
qed

theorem status_changes_only_by_Delete_or_Build_witness:
  "int (length (filter is_CreateServer [Call_CreateServer test_request])) < 2 ^ 63 - 1000
   \<and> servers (run NewFakeClient [Call_CreateServer test_request]) 1000 = Some created_server
   \<and> Server_ServerStatus created_server = ''RUNNING''
   \<and> status_of (snd (invoke (run NewFakeClient [Call_CreateServer test_request]) Call_GetLocations))
        1000 = Some ''RUNNING''"
proof -
  have h1: "int (length (filter is_CreateServer [Call_CreateServer test_request])) < 2 ^ 63 - 1000"
    by simp
  have h2: "servers (run NewFakeClient [Call_CreateServer test_request]) 1000 = Some created_server"
    unfolding run_create by (simp add: one_server_eq)
  have h3: "Server_ServerStatus created_server = ''RUNNING''"
    by (simp add: created_server_def)
  show ?thesis
    using h1 h2 h3 status_changes_only_by_Delete_or_Build [OF h1 h2, of Call_GetLocations]
    by (auto simp add: status_of_def)
qed

text \<open>
  The sentence as the specification has it also rules out a way back from "TERMINATED" to
  "RUNNING". \<^verbatim>\<open>BuildServer\<close> is that way: create a server, delete it, build it again.
\<close>

theorem status_TERMINATED_to_RUNNING_counterexample:
  "status_of (run NewFakeClient [Call_CreateServer test_request, Call_DeleteServer 1000 True]) 1000
     = Some ''TERMINATED''
   \<and> status_of (snd (invoke
        (run NewFakeClient [Call_CreateServer test_request, Call_DeleteServer 1000 True])
        (Call_BuildServer 1000 rebuild_request))) 1000
     = Some ''RUNNING''"
  unfolding run_create_delete DeleteServer_one_server
  by (simp add: status_of_def BuildServer_def trackCall_def NewFakeClient_def Let_def
        set_os_name_others set_location_name_others)

section \<open>Reading a server after its deletion\<close>

lemma run_append: "run f (xs @ ys) = run (run f xs) ys"
  by (induction xs arbitrary: f) simp_all













section \<open>Configuring the two providers\<close>

lemma set_Append: "set (Append a ds) = set a \<union> set ds"
  by (induction ds arbitrary: a) auto

lemma HasError_set: "HasError ds \<longleftrightarrow> (\<exists>d\<in>set ds. Diagnostic_Severity d = Severity_Error)"
  by (simp add: HasError_def list_ex_iff)

lemma Errors_none: "\<not> HasError ds \<Longrightarrow> Errors ds = []"
  by (simp add: HasError_set Errors_def filter_empty_conv)

lemma HasError_Append_Nil: "HasError (Append [] ds) = HasError ds"
  by (simp add: HasError_set set_Append)

lemma Errors_AddError:
  "\<not> HasError ds \<Longrightarrow>
   Errors (AddError ds summary detail)
     = [\<lparr>Diagnostic_Severity = Severity_Error, Diagnostic_Summary = summary,
         Diagnostic_Detail = detail\<rparr>]"
  by (auto simp add: AddError_def Errors_none HasError_set Errors_def)

lemma providerConfigure_missing:
  assumes "(case raw ''api_key'' of None \<Rightarrow> [] | Some v \<Rightarrow> v) = []"
    and "env ''NETACTUATE_API_KEY'' = None"
  shows "fst (providerConfigure (ResourceData_Get raw env)) = None
     \<and> length (snd (providerConfigure (ResourceData_Get raw env))) = 1
     \<and> map Diagnostic_Summary (Errors (snd (providerConfigure (ResourceData_Get raw env))))
         = [''Unable to create NetActuate API client'']"
  using assms
  by (simp add: providerConfigure_def ResourceData_Get_def EnvDefaultFunc_def Errors_def Let_def)

lemma providerConfigure_key:
  assumes "raw ''api_key'' = Some k" and "k \<noteq> []"
  shows "providerConfigure (ResourceData_Get raw env)
     = (Some (if (case raw ''api_url'' of None \<Rightarrow> [] | Some v \<Rightarrow> v) = [] then NewClient k
              else NewClientCustom k (case raw ''api_url'' of None \<Rightarrow> [] | Some v \<Rightarrow> v)), [])"
  using assms
  by (simp add: providerConfigure_def ResourceData_Get_def EnvDefaultFunc_def Let_def)

lemma Configure_missing:
  assumes "\<not> HasError ds" and "ValueString (ApiKey config) = []"
  shows "DataSourceData (Configure ds config empty_response) = None
     \<and> ResourceData (Configure ds config empty_response) = None
     \<and> map Diagnostic_Summary (Errors (Diagnostics (Configure ds config empty_response)))
         = [''Unable to create NetActuate API client'']"
  using assms
  by (simp add: Configure_def empty_response_def Let_def HasError_Append_Nil Errors_AddError)

lemma Configure_key:
  assumes "\<not> HasError ds" and "ValueString (ApiKey config) \<noteq> []"
  shows "Errors (Diagnostics (Configure ds config empty_response)) = []
     \<and> DataSourceData (Configure ds config empty_response)
         = Some (if ValueString (ApiUrl config) = [] then NewClient (ValueString (ApiKey config))
                 else NewClientCustom (ValueString (ApiKey config)) (ValueString (ApiUrl config)))
     \<and> ResourceData (Configure ds config empty_response)
         = DataSourceData (Configure ds config empty_response)"
  using assms
  by (simp add: Configure_def empty_response_def Let_def HasError_Append_Nil Errors_none)

text \<open>
  Claim C9. Legacy provider: when the configuration supplies no \<^verbatim>\<open>api_key\<close> (or an empty
  one) and \<^verbatim>\<open>NETACTUATE_API_KEY\<close> is unset, \<^verbatim>\<open>providerConfigure\<close> returns no client and
  exactly one diagnostic, an error with summary "Unable to create NetActuate API client";
  with a non-empty \<^verbatim>\<open>api_key\<close> it returns no diagnostic and one client, made by
  \<^verbatim>\<open>NewClientCustom\<close> when \<^verbatim>\<open>api_url\<close> is non-empty and by \<^verbatim>\<open>NewClient\<close> otherwise.
  Framework provider, on a configuration that decodes without error: an empty
  \<^verbatim>\<open>api_key\<close> gives exactly one error diagnostic with that summary and no client, whatever
  the environment; a non-empty one gives no error diagnostic and the same client as data
  source data and as resource data, chosen by \<^verbatim>\<open>api_url\<close> in the same way.
\<close>

theorem configuration_needs_api_key:
  "((case raw ''api_key'' of None \<Rightarrow> [] | Some v \<Rightarrow> v) = [] \<and> env ''NETACTUATE_API_KEY'' = None \<longrightarrow>
       fst (providerConfigure (ResourceData_Get raw env)) = None
     \<and> length (snd (providerConfigure (ResourceData_Get raw env))) = 1
     \<and> map Diagnostic_Summary (Errors (snd (providerConfigure (ResourceData_Get raw env))))
         = [''Unable to create NetActuate API client''])
   \<and> (raw ''api_key'' = Some k \<and> k \<noteq> [] \<longrightarrow>
       providerConfigure (ResourceData_Get raw env)
         = (Some (if (case raw ''api_url'' of None \<Rightarrow> [] | Some v \<Rightarrow> v) = [] then NewClient k
                  else NewClientCustom k (case raw ''api_url'' of None \<Rightarrow> [] | Some v \<Rightarrow> v)), []))
   \<and> (\<not> HasError ds \<and> ValueString (ApiKey config) = [] \<longrightarrow>
       DataSourceData (Configure ds config empty_response) = None
     \<and> ResourceData (Configure ds config empty_response) = None
     \<and> map Diagnostic_Summary (Errors (Diagnostics (Configure ds config empty_response)))
         = [''Unable to create NetActuate API client''])
   \<and> (\<not> HasError ds \<and> ValueString (ApiKey config) \<noteq> [] \<longrightarrow>
       Errors (Diagnostics (Configure ds config empty_response)) = []
     \<and> DataSourceData (Configure ds config empty_response)
         = Some (if ValueString (ApiUrl config) = [] then NewClient (ValueString (ApiKey config))
                 else NewClientCustom (ValueString (ApiKey config)) (ValueString (ApiUrl config)))
     \<and> ResourceData (Configure ds config empty_response)
         = DataSourceData (Configure ds config empty_response))"
  using providerConfigure_missing [of raw env] providerConfigure_key [of raw k env]
    Configure_missing [of ds config] Configure_key [of ds config]
  by blast

theorem configuration_needs_api_key_witness:
  "(case Map.empty ''api_key'' of None \<Rightarrow> [] | Some v \<Rightarrow> v) = ([] :: string)
   \<and> (Map.empty :: string \<rightharpoonup> string) ''NETACTUATE_API_KEY'' = None
   \<and> fst (providerConfigure (ResourceData_Get Map.empty Map.empty)) = None
   \<and> length (snd (providerConfigure (ResourceData_Get Map.empty Map.empty))) = 1
   \<and> [''api_key'' \<mapsto> ''test-key'', ''api_url'' \<mapsto> ''https://custom.netactuate.example.com/api''] ''api_key''
        = Some ''test-key''
   \<and> ''test-key'' \<noteq> []
   \<and> providerConfigure (ResourceData_Get
        [''api_key'' \<mapsto> ''test-key'', ''api_url'' \<mapsto> ''https://custom.netactuate.example.com/api''] Map.empty)
        = (Some (NewClientCustom ''test-key'' ''https://custom.netactuate.example.com/api''), [])
   \<and> \<not> HasError [] \<and> ValueString (ApiKey \<lparr>ApiKey = StringValue [], ApiUrl = StringNull\<rparr>) = []
   \<and> map Diagnostic_Summary (Errors (Diagnostics
         (Configure [] \<lparr>ApiKey = StringValue [], ApiUrl = StringNull\<rparr> empty_response)))
        = [''Unable to create NetActuate API client'']
   \<and> ValueString (ApiKey \<lparr>ApiKey = StringValue ''test-api-key'', ApiUrl = StringNull\<rparr>) \<noteq> []
   \<and> DataSourceData (Configure [] \<lparr>ApiKey = StringValue ''test-api-key'', ApiUrl = StringNull\<rparr> empty_response)
        = Some (NewClient ''test-api-key'')"
  using
    configuration_needs_api_key [of Map.empty Map.empty
      "''test-key''" "[]" "\<lparr>ApiKey = StringValue [], ApiUrl = StringNull\<rparr>"]
    configuration_needs_api_key [of
      "[''api_key'' \<mapsto> ''test-key'', ''api_url'' \<mapsto> ''https://custom.netactuate.example.com/api'']"
      Map.empty "''test-key''" "[]"
      "\<lparr>ApiKey = StringValue ''test-api-key'', ApiUrl = StringNull\<rparr>"]
  by (simp add: HasError_def)

end
